theory Spec2Isabelle
  imports Main
begin

section \<open>The FM-radio receiver session\<close>

text \<open>
  A shallow embedding of the receiver's state machine: the transition table
  \<open>IsValidRxEventForState\<close>, the commands that come from the Java layer, the two scan
  worker threads and the forced-reset callback of the vendor layer.

  The session \<open>fmReceiverSession\<close> is passed explicitly and returned updated. Everything a
  function does besides changing the session is written, in program order, into a list of
  effects: the calls into the vendor driver, the calls of the entries of \<open>callbacks_p\<close>
  (the notifications), the Java exceptions raised and the worker threads created.
  C \<open>int\<close> values are only compared, never computed with, so they are HOL integers.
\<close>

subsection \<open>States, events and the transition table\<close>

text \<open>
  The enumerations are declared in \<^verbatim>\<open>android_fmradio.h\<close>. Their members and their order are
  taken from the row and column comments of the table in the source.
\<close>

datatype FmRadioState_t =
    FMRADIO_STATE_IDLE
  | FMRADIO_STATE_STARTING
  | FMRADIO_STATE_STARTED
  | FMRADIO_STATE_PAUSED
  | FMRADIO_STATE_SCANNING
  | FMRADIO_STATE_E_C
  | FMRADIO_STATE_RESETTING

datatype FmRadioEvent_t =
    FMRADIO_EVENT_START
  | FMRADIO_EVENT_START_ASYNC
  | FMRADIO_EVENT_PAUSE
  | FMRADIO_EVENT_RESUME
  | FMRADIO_EVENT_RESET
  | FMRADIO_EVENT_FORCED_PAUSE
  | FMRADIO_EVENT_GET_PARAMETER
  | FMRADIO_EVENT_SET_PARAMETER
  | FMRADIO_EVENT_STOP_SCAN
  | FMRADIO_EVENT_EXTRA_COMMAND
  | FMRADIO_EVENT_GET_SIGNAL_STRENGTH
  | FMRADIO_EVENT_SCAN
  | FMRADIO_EVENT_FULL_SCAN
  | FMRADIO_EVENT_BLOCK_SCAN

text \<open>The value of each enumerator: the column, respectively the row, of the table.\<close>

fun state_index :: "FmRadioState_t \<Rightarrow> nat" where
  "state_index FMRADIO_STATE_IDLE = 0"
| "state_index FMRADIO_STATE_STARTING = 1"
| "state_index FMRADIO_STATE_STARTED = 2"
| "state_index FMRADIO_STATE_PAUSED = 3"
| "state_index FMRADIO_STATE_SCANNING = 4"
| "state_index FMRADIO_STATE_E_C = 5"
| "state_index FMRADIO_STATE_RESETTING = 6"

fun event_index :: "FmRadioEvent_t \<Rightarrow> nat" where
  "event_index FMRADIO_EVENT_START = 0"
| "event_index FMRADIO_EVENT_START_ASYNC = 1"
| "event_index FMRADIO_EVENT_PAUSE = 2"
| "event_index FMRADIO_EVENT_RESUME = 3"
| "event_index FMRADIO_EVENT_RESET = 4"
| "event_index FMRADIO_EVENT_FORCED_PAUSE = 5"
| "event_index FMRADIO_EVENT_GET_PARAMETER = 6"
| "event_index FMRADIO_EVENT_SET_PARAMETER = 7"
| "event_index FMRADIO_EVENT_STOP_SCAN = 8"
| "event_index FMRADIO_EVENT_EXTRA_COMMAND = 9"
| "event_index FMRADIO_EVENT_GET_SIGNAL_STRENGTH = 10"
| "event_index FMRADIO_EVENT_SCAN = 11"
| "event_index FMRADIO_EVENT_FULL_SCAN = 12"
| "event_index FMRADIO_EVENT_BLOCK_SCAN = 13"

text \<open>The table, row by row as in the source: one row per event, one column per state.\<close>

definition IsValidRxEventForState :: "bool list list" where
  "IsValidRxEventForState =
    [ \<comment> \<open>IDLE, STARTING, STARTED, PAUSED, SCANNING, E_C, RESETTING\<close>
      \<comment> \<open>START\<close>               [True,  False, False, False, False, False, False],
      \<comment> \<open>START_ASYNC\<close>        [True,  False, False, False, False, False, False],
      \<comment> \<open>PAUSE\<close>               [False, False, True,  True,  False, False, False],
      \<comment> \<open>RESUME\<close>              [False, False, True,  True,  False, False, False],
      \<comment> \<open>RESET\<close>               [True,  True,  True,  True,  True,  True,  False],
      \<comment> \<open>FORCED_PAUSE\<close>       [True,  True,  True,  True,  True,  True,  False],
      \<comment> \<open>GET_PARAMETER\<close>      [False, False, True,  True,  False, False, False],
      \<comment> \<open>SET_PARAMETER\<close>      [False, False, True,  True,  False, False, False],
      \<comment> \<open>STOP_SCAN\<close>          [True,  True,  True,  True,  True,  True,  False],
      \<comment> \<open>EXTRA_COMMAND\<close>      [True,  True,  True,  True,  True,  True,  False],
      \<comment> \<open>GET_SIGNAL_STRENGTH\<close> [False, False, True,  False, False, False, False],
      \<comment> \<open>SCAN\<close>                [False, False, True,  True,  False, False, False],
      \<comment> \<open>FULL_SCAN\<close>          [False, False, True,  True,  False, False, False],
      \<comment> \<open>BLOCK_SCAN\<close>         [False, False, False, False, False, False, False] ]"

text \<open>The lookup \<open>table[event][state]\<close>.\<close>

definition rx_event_valid :: "FmRadioEvent_t \<Rightarrow> FmRadioState_t \<Rightarrow> bool" where
  "rx_event_valid e st = IsValidRxEventForState ! event_index e ! state_index st"

text \<open>
  The table as the specification words it (its sections 4.1 and 4.2), event by event;
  what is not listed is invalid.
\<close>

fun spec_is_valid :: "FmRadioEvent_t \<Rightarrow> FmRadioState_t \<Rightarrow> bool" where
  "spec_is_valid FMRADIO_EVENT_START st = (st = FMRADIO_STATE_IDLE)"
| "spec_is_valid FMRADIO_EVENT_START_ASYNC st = (st = FMRADIO_STATE_IDLE)"
| "spec_is_valid FMRADIO_EVENT_PAUSE st = (st = FMRADIO_STATE_STARTED \<or> st = FMRADIO_STATE_PAUSED)"
| "spec_is_valid FMRADIO_EVENT_RESUME st = (st = FMRADIO_STATE_STARTED \<or> st = FMRADIO_STATE_PAUSED)"
| "spec_is_valid FMRADIO_EVENT_SCAN st = (st = FMRADIO_STATE_STARTED \<or> st = FMRADIO_STATE_PAUSED)"
| "spec_is_valid FMRADIO_EVENT_FULL_SCAN st = (st = FMRADIO_STATE_STARTED \<or> st = FMRADIO_STATE_PAUSED)"
| "spec_is_valid FMRADIO_EVENT_GET_PARAMETER st = (st = FMRADIO_STATE_STARTED \<or> st = FMRADIO_STATE_PAUSED)"
| "spec_is_valid FMRADIO_EVENT_SET_PARAMETER st = (st = FMRADIO_STATE_STARTED \<or> st = FMRADIO_STATE_PAUSED)"
| "spec_is_valid FMRADIO_EVENT_GET_SIGNAL_STRENGTH st = (st = FMRADIO_STATE_STARTED)"
| "spec_is_valid FMRADIO_EVENT_RESET st = (st \<noteq> FMRADIO_STATE_RESETTING)"
| "spec_is_valid FMRADIO_EVENT_FORCED_PAUSE st = (st \<noteq> FMRADIO_STATE_RESETTING)"
| "spec_is_valid FMRADIO_EVENT_STOP_SCAN st = (st \<noteq> FMRADIO_STATE_RESETTING)"
| "spec_is_valid FMRADIO_EVENT_EXTRA_COMMAND st = (st \<noteq> FMRADIO_STATE_RESETTING)"
| "spec_is_valid FMRADIO_EVENT_BLOCK_SCAN st = False"

subsection \<open>The session, the vendor driver and the effects\<close>

text \<open>
  The fields of \<open>struct FmSession_t\<close> that the receiver reads or writes. The structure is
  declared in \<^verbatim>\<open>android_fmradio.h\<close>; the field names are those the source uses.
\<close>

record FmSession_t =
  isRegistered :: bool
  state :: FmRadioState_t
  oldState :: FmRadioState_t
  pendingPause :: bool
  lastScanAborted :: bool

datatype fmradio_seek_direction_t = FMRADIO_SEEK_DOWN | FMRADIO_SEEK_UP

text \<open>
  The table \<open>vendorMethods_p\<close> points to. No function of the receiver writes it, so it is
  passed next to the session. An entry the receiver tests against \<open>NULL\<close> is an option:
  \<open>None\<close> is the null pointer, \<open>Some f\<close> a function whose call returns \<open>f\<close> applied to the
  arguments. The vendor's own data behind \<open>vendorData_p\<close> is never read by the receiver
  and is left out. \<open>full_scan\<close> returns the number of items (negative on failure) and
  the two arrays it allocates. \<open>resume\<close> and \<open>pause\<close> are called without a test and their
  results are thrown away.
\<close>

record fmradio_vendor_methods_t =
  get_signal_strength :: "int option"
  scan :: "(fmradio_seek_direction_t \<Rightarrow> int) option"
  full_scan :: "(int \<times> int list \<times> int list) option"
  set_automatic_af_switching :: "(bool \<Rightarrow> int) option"
  set_automatic_ta_switching :: "(bool \<Rightarrow> int) option"
  set_force_mono :: "(bool \<Rightarrow> int) option"
  set_threshold :: "(int \<Rightarrow> int) option"
  get_threshold :: "int option"

text \<open>
  The status macros of \<^verbatim>\<open>android_fmradio.h\<close>. Their values are not in the sources, so
  they are a parameter of every function that uses one.
\<close>

record return_codes =
  FMRADIO_INVALID_STATE :: int
  FMRADIO_IO_ERROR :: int
  FMRADIO_UNSUPPORTED_OPERATION :: int

text \<open>The error taxonomy of the specification (its section 7).\<close>

datatype fm_error = InvalidState | IoError | UnsupportedOperation | AllocationFailure

datatype worker = ScanWorker fmradio_seek_direction_t | FullScanWorker

text \<open>
  What a function does to the outside, in program order: a call of a vendor method, a call
  of an entry of \<open>callbacks_p\<close>, a Java exception raised, a thread created by a
  successful \<open>pthread_create\<close>. \<open>OnStateChanged\<close> carries the new state, then the old one.
\<close>

datatype effect =
    VendorResume
  | VendorPause
  | VendorScan fmradio_seek_direction_t
  | VendorFullScan
  | VendorGetSignalStrength
  | VendorSetAutomaticAfSwitching bool
  | VendorSetAutomaticTaSwitching bool
  | VendorSetForceMono bool
  | VendorSetThreshold int
  | VendorGetThreshold
  | OnStateChanged FmRadioState_t FmRadioState_t
  | OnError
  | OnScan int int bool
  | OnFullScan int "int list" "int list" bool
  | OnForcedReset int
  | Throw fm_error
  | PthreadCreate worker

fun is_OnForcedReset :: "effect \<Rightarrow> bool" where
  "is_OnForcedReset (OnForcedReset reason) = True"
| "is_OnForcedReset _ = False"

subsection \<open>Helpers declared outside the receiver\<close>

definition FMRADIO_SET_STATE :: "FmSession_t \<Rightarrow> FmRadioState_t \<Rightarrow> FmSession_t \<times> effect list" where
  \<comment> \<open>Modelled from the spec: the macro \<open>FMRADIO_SET_STATE\<close> of android_fmradio.h is not
      in the sources. It assigns the state field and notifies \<open>onStateChanged(new, old)\<close>.\<close>
  "FMRADIO_SET_STATE s newState = (s\<lparr>state := newState\<rparr>, [OnStateChanged newState (state s)])"

definition androidFmRadioIsValidEventForState :: "FmSession_t \<Rightarrow> FmRadioEvent_t \<Rightarrow> bool" where
  \<comment> \<open>Modelled from the spec: the function \<open>androidFmRadioIsValidEventForState\<close> is not in
      the sources. It is the pure lookup of the event and the session's current state in the
      session's table, which for the receiver is \<open>IsValidRxEventForState\<close>.\<close>
  "androidFmRadioIsValidEventForState s e = rx_event_valid e (state s)"

definition androidFmRadioTempResumeIfPaused :: "FmSession_t \<Rightarrow> effect list" where
  \<comment> \<open>Modelled from the spec: the function \<open>androidFmRadioTempResumeIfPaused\<close> is not in
      the sources. If the state is paused it calls the vendor's \<open>resume\<close>; the state field
      stays as it is.\<close>
  "androidFmRadioTempResumeIfPaused s =
     (if state s = FMRADIO_STATE_PAUSED then [VendorResume] else [])"

definition androidFmRadioPauseIfTempResumed :: "FmSession_t \<Rightarrow> effect list" where
  \<comment> \<open>Modelled from the spec: the function \<open>androidFmRadioPauseIfTempResumed\<close> is not in
      the sources. If the state is paused it calls the vendor's \<open>pause\<close>; the state field
      stays as it is.\<close>
  "androidFmRadioPauseIfTempResumed s =
     (if state s = FMRADIO_STATE_PAUSED then [VendorPause] else [])"

definition THROW_INVALID_STATE :: "effect list" where
  \<comment> \<open>Modelled from the spec: the macro \<open>THROW_INVALID_STATE\<close> is not in the sources. It
      raises the exception of the error \<open>InvalidState\<close>.\<close>
  "THROW_INVALID_STATE = [Throw InvalidState]"

definition THROW_IO_ERROR :: "effect list" where
  \<comment> \<open>Modelled from the spec: the macro \<open>THROW_IO_ERROR\<close> is not in the sources. It raises
      the exception of the error \<open>IoError\<close>.\<close>
  "THROW_IO_ERROR = [Throw IoError]"

text \<open>
  The two tests every command makes on its status before it returns:
  \<^verbatim>\<open>if (retval == FMRADIO_INVALID_STATE) THROW_INVALID_STATE else if (retval < 0) THROW_IO_ERROR\<close>.
\<close>

definition throw_for :: "return_codes \<Rightarrow> int \<Rightarrow> effect list" where
  "throw_for rc retval =
     (if retval = FMRADIO_INVALID_STATE rc then THROW_INVALID_STATE
      else if retval < 0 then THROW_IO_ERROR
      else [])"

subsection \<open>The callback of the vendor layer for a forced reset\<close>

definition androidFmRadioRxCallbackOnVendorForcedReset ::
    "int \<Rightarrow> FmSession_t \<Rightarrow> FmSession_t \<times> effect list" where
  "androidFmRadioRxCallbackOnVendorForcedReset reason s =
     (let (s1, t1) =
            (if state s \<noteq> FMRADIO_STATE_IDLE then FMRADIO_SET_STATE s FMRADIO_STATE_IDLE
             else (s, []))
      in (s1, t1 @ [OnForcedReset reason]))"

subsection \<open>Commands from the Java layer\<close>

text \<open>
  Each command runs under the session's mutex from its first to its last statement. The
  functions that return a \<open>jint\<close> give their status first.
\<close>

definition androidFmRadioRxGetSignalStrength ::
    "return_codes \<Rightarrow> fmradio_vendor_methods_t \<Rightarrow> FmSession_t \<Rightarrow> int \<times> FmSession_t \<times> effect list" where
  "androidFmRadioRxGetSignalStrength rc vm s =
     (if \<not> androidFmRadioIsValidEventForState s FMRADIO_EVENT_GET_SIGNAL_STRENGTH then
        (let retval = FMRADIO_INVALID_STATE rc in (retval, s, throw_for rc retval))
      else
        (case get_signal_strength vm of
           Some r \<Rightarrow>
             (r, s, androidFmRadioTempResumeIfPaused s @ [VendorGetSignalStrength]
                      @ androidFmRadioPauseIfTempResumed s @ throw_for rc r)
         | None \<Rightarrow>
             (let retval = FMRADIO_UNSUPPORTED_OPERATION rc in (retval, s, throw_for rc retval))))"

text \<open>
  \<open>thread_ok\<close> says whether \<open>pthread_create\<close> returns 0. The worker it starts is
  \<open>execute_androidFmRadioRxScan\<close> below.
\<close>

definition androidFmRadioRxScan ::
    "return_codes \<Rightarrow> fmradio_vendor_methods_t \<Rightarrow> bool \<Rightarrow> fmradio_seek_direction_t \<Rightarrow>
     FmSession_t \<Rightarrow> FmSession_t \<times> effect list" where
  "androidFmRadioRxScan rc vm thread_ok seekDirection s =
     (if \<not> androidFmRadioIsValidEventForState s FMRADIO_EVENT_SCAN then
        (s, throw_for rc (FMRADIO_INVALID_STATE rc))
      else
        (case scan vm of
           Some vendor_scan \<Rightarrow>
             (let s1 = s\<lparr>oldState := state s\<rparr>;
                  (s2, t2) = FMRADIO_SET_STATE s1 FMRADIO_STATE_SCANNING;
                  s3 = s2\<lparr>lastScanAborted := False\<rparr>
              in if thread_ok then
                   (s3, t2 @ [PthreadCreate (ScanWorker seekDirection)] @ throw_for rc 0)
                 else
                   (let (s4, t4) = FMRADIO_SET_STATE s3 FMRADIO_STATE_IDLE
                    in (s4, t2 @ t4 @ throw_for rc (FMRADIO_IO_ERROR rc))))
         | None \<Rightarrow> (s, throw_for rc (FMRADIO_UNSUPPORTED_OPERATION rc))))"

definition androidFmRadioRxStartFullScan ::
    "return_codes \<Rightarrow> fmradio_vendor_methods_t \<Rightarrow> bool \<Rightarrow> FmSession_t \<Rightarrow> FmSession_t \<times> effect list" where
  "androidFmRadioRxStartFullScan rc vm thread_ok s =
     (if \<not> androidFmRadioIsValidEventForState s FMRADIO_EVENT_FULL_SCAN then
        (s, throw_for rc (FMRADIO_INVALID_STATE rc))
      else
        (case full_scan vm of
           Some vendor_full_scan \<Rightarrow>
             (let s1 = s\<lparr>oldState := state s\<rparr>;
                  (s2, t2) = FMRADIO_SET_STATE s1 FMRADIO_STATE_SCANNING;
                  s3 = s2\<lparr>lastScanAborted := False\<rparr>
              in if thread_ok then
                   (s3, t2 @ [PthreadCreate FullScanWorker] @ throw_for rc 0)
                 else
                   (let (s4, t4) = FMRADIO_SET_STATE s3 FMRADIO_STATE_IDLE
                    in (s4, t2 @ t4 @ throw_for rc (FMRADIO_IO_ERROR rc))))
         | None \<Rightarrow> (s, throw_for rc (FMRADIO_UNSUPPORTED_OPERATION rc))))"

definition androidFmRadioRxSetAutomaticAFSwitching ::
    "return_codes \<Rightarrow> fmradio_vendor_methods_t \<Rightarrow> bool \<Rightarrow> FmSession_t \<Rightarrow> FmSession_t \<times> effect list" where
  "androidFmRadioRxSetAutomaticAFSwitching rc vm automatic s =
     (if \<not> androidFmRadioIsValidEventForState s FMRADIO_EVENT_SET_PARAMETER then
        (s, throw_for rc (FMRADIO_INVALID_STATE rc))
      else
        (case set_automatic_af_switching vm of
           Some f \<Rightarrow> (s, [VendorSetAutomaticAfSwitching automatic] @ throw_for rc (f automatic))
         | None \<Rightarrow> (s, throw_for rc (FMRADIO_UNSUPPORTED_OPERATION rc))))"

definition androidFmRadioRxSetAutomaticTASwitching ::
    "return_codes \<Rightarrow> fmradio_vendor_methods_t \<Rightarrow> bool \<Rightarrow> FmSession_t \<Rightarrow> FmSession_t \<times> effect list" where
  "androidFmRadioRxSetAutomaticTASwitching rc vm automatic s =
     (if \<not> androidFmRadioIsValidEventForState s FMRADIO_EVENT_SET_PARAMETER then
        (s, throw_for rc (FMRADIO_INVALID_STATE rc))
      else
        (case set_automatic_ta_switching vm of
           Some f \<Rightarrow> (s, [VendorSetAutomaticTaSwitching automatic] @ throw_for rc (f automatic))
         | None \<Rightarrow> (s, throw_for rc (FMRADIO_UNSUPPORTED_OPERATION rc))))"

definition androidFmRadioRxSetForceMono ::
    "return_codes \<Rightarrow> fmradio_vendor_methods_t \<Rightarrow> bool \<Rightarrow> FmSession_t \<Rightarrow> FmSession_t \<times> effect list" where
  "androidFmRadioRxSetForceMono rc vm forceMono s =
     (if \<not> androidFmRadioIsValidEventForState s FMRADIO_EVENT_SET_PARAMETER then
        (s, throw_for rc (FMRADIO_INVALID_STATE rc))
      else
        (case set_force_mono vm of
           Some f \<Rightarrow>
             (s, androidFmRadioTempResumeIfPaused s @ [VendorSetForceMono forceMono]
                   @ androidFmRadioPauseIfTempResumed s @ throw_for rc (f forceMono))
         | None \<Rightarrow> (s, throw_for rc (FMRADIO_UNSUPPORTED_OPERATION rc))))"

text \<open>
  In \<open>androidFmRadioRxSetThreshold\<close> the label \<open>drop_lock\<close> stands after the two tests
  on the status, so the jump taken from an invalid state raises nothing.
\<close>

definition androidFmRadioRxSetThreshold ::
    "return_codes \<Rightarrow> fmradio_vendor_methods_t \<Rightarrow> int \<Rightarrow> FmSession_t \<Rightarrow> FmSession_t \<times> effect list" where
  "androidFmRadioRxSetThreshold rc vm threshold s =
     (if \<not> androidFmRadioIsValidEventForState s FMRADIO_EVENT_SET_PARAMETER then
        (s, [])
      else
        (case set_threshold vm of
           Some f \<Rightarrow>
             (s, androidFmRadioTempResumeIfPaused s @ [VendorSetThreshold threshold]
                   @ androidFmRadioPauseIfTempResumed s @ throw_for rc (f threshold))
         | None \<Rightarrow> (s, throw_for rc (FMRADIO_UNSUPPORTED_OPERATION rc))))"

definition androidFmRadioRxGetThreshold ::
    "return_codes \<Rightarrow> fmradio_vendor_methods_t \<Rightarrow> FmSession_t \<Rightarrow> int \<times> FmSession_t \<times> effect list" where
  "androidFmRadioRxGetThreshold rc vm s =
     (if \<not> androidFmRadioIsValidEventForState s FMRADIO_EVENT_GET_PARAMETER then
        (let retval = FMRADIO_INVALID_STATE rc in (retval, s, throw_for rc retval))
      else
        (case get_threshold vm of
           Some r \<Rightarrow>
             (r, s, androidFmRadioTempResumeIfPaused s @ [VendorGetThreshold]
                      @ androidFmRadioPauseIfTempResumed s @ throw_for rc r)
         | None \<Rightarrow>
             (let retval = FMRADIO_UNSUPPORTED_OPERATION rc in (retval, s, throw_for rc retval))))"

subsection \<open>The scan workers\<close>

text \<open>
  A worker holds the mutex twice: from its entry to the vendor's scan call, and from the
  return of that call to its end. In between the mutex is free and other threads run
  (a reset, a forced reset, a stop-scan request): \<open>others\<close> is what they make of the
  session in that time, so the session the worker finds when it takes the mutex again is
  \<open>others s0\<close>. The callbacks also release the mutex around the call into Java; what
  other threads change there is not a change made by the worker. The definitions of this
  subsection run the second half without that interference; the next subsection adds it.
  A call through a null \<open>scan\<close> or \<open>full_scan\<close> pointer has no result: \<open>None\<close>.

  The part of each worker after it has taken the mutex again comes first; it gets the
  \<open>oldState\<close> the worker read on entry and the status of the vendor's scan.
\<close>

definition execute_androidFmRadioRxScan_relocked ::
    "fmradio_vendor_methods_t \<Rightarrow> FmRadioState_t \<Rightarrow> int \<Rightarrow> FmSession_t \<Rightarrow> FmSession_t \<times> effect list" where
  "execute_androidFmRadioRxScan_relocked vm old scanned s =
     (let (s1, t1, retval, signalStrength) =
            (if state s \<noteq> FMRADIO_STATE_SCANNING then (s, [], - 1, - 1)
             else
               (let tp = (if old = FMRADIO_STATE_PAUSED \<or> pendingPause s then [VendorPause] else []);
                    (s', ts) = (if pendingPause s then FMRADIO_SET_STATE s FMRADIO_STATE_PAUSED
                                else FMRADIO_SET_STATE s old);
                    (sig, tg) = (if scanned \<ge> 0 then
                                   (case get_signal_strength vm of
                                      Some r \<Rightarrow> (r, [VendorGetSignalStrength])
                                    | None \<Rightarrow> (- 1, []))
                                 else (- 1, []))
                in (s', tp @ ts @ tg, scanned, sig)));
          s2 = s1\<lparr>pendingPause := False\<rparr>
      in if retval \<ge> 0 then (s2, t1 @ [OnScan retval signalStrength (lastScanAborted s2)])
         else (s2, t1 @ [OnError]))"

definition execute_androidFmRadioRxScan ::
    "fmradio_vendor_methods_t \<Rightarrow> fmradio_seek_direction_t \<Rightarrow> (FmSession_t \<Rightarrow> FmSession_t) \<Rightarrow>
     FmSession_t \<Rightarrow> (FmSession_t \<times> effect list) option" where
  "execute_androidFmRadioRxScan vm seekDirection others s0 =
     (let old = oldState s0;
          t0 = (if old = FMRADIO_STATE_PAUSED then [VendorResume] else [])
      in case scan vm of
           None \<Rightarrow> None
         | Some vendor_scan \<Rightarrow>
             (let (s2, t2) = execute_androidFmRadioRxScan_relocked vm old
                               (vendor_scan seekDirection) (others s0)
              in Some (s2, t0 @ [VendorScan seekDirection] @ t2)))"

definition execute_androidFmRadioRxFullScan_relocked ::
    "FmRadioState_t \<Rightarrow> int \<times> int list \<times> int list \<Rightarrow> FmSession_t \<Rightarrow> FmSession_t \<times> effect list" where
  "execute_androidFmRadioRxFullScan_relocked old scanned s =
     (let (n, frequencies, rssi) = scanned;
          (s1, t1, retval) =
            (if state s \<noteq> FMRADIO_STATE_SCANNING then (s, [], - 1)
             else
               (let (s', ts) = (if pendingPause s then FMRADIO_SET_STATE s FMRADIO_STATE_PAUSED
                                else FMRADIO_SET_STATE s old)
                in (s'\<lparr>pendingPause := False\<rparr>, ts, n)))
      in if retval \<ge> 0 then (s1, t1 @ [OnFullScan retval frequencies rssi (lastScanAborted s1)])
         else (s1, t1 @ [OnError]))"

definition execute_androidFmRadioRxFullScan ::
    "fmradio_vendor_methods_t \<Rightarrow> (FmSession_t \<Rightarrow> FmSession_t) \<Rightarrow> FmSession_t \<Rightarrow>
     (FmSession_t \<times> effect list) option" where
  "execute_androidFmRadioRxFullScan vm others s0 =
     (let old = oldState s0;
          t0 = (if old = FMRADIO_STATE_PAUSED then [VendorResume] else [])
      in case full_scan vm of
           None \<Rightarrow> None
         | Some scanned \<Rightarrow>
             (let (s2, t2) = execute_androidFmRadioRxFullScan_relocked old scanned (others s0)
              in Some (s2, t0 @ [VendorFullScan] @ t2)))"

subsection \<open>The scan workers, with the mutex released inside the state notification\<close>

text \<open>
  \<open>androidFmRadioRxCallbackOnStateChanged\<close> is entered with the mutex held. It unlocks the
  mutex, calls the Java method and locks the mutex again: \<open>in_java\<close> is what other threads
  make of the session meanwhile. When the thread cannot be attached or the Java method is
  not found the mutex is never released, which is \<open>in_java\<close> being the identity.
\<close>

definition androidFmRadioRxCallbackOnStateChanged ::
    "(FmSession_t \<Rightarrow> FmSession_t) \<Rightarrow> FmRadioState_t \<Rightarrow> FmRadioState_t \<Rightarrow> FmSession_t \<Rightarrow>
     FmSession_t \<times> effect list" where
  "androidFmRadioRxCallbackOnStateChanged in_java newState previous s =
     (in_java s, [OnStateChanged newState previous])"

definition FMRADIO_SET_STATE_unlocking ::
    "(FmSession_t \<Rightarrow> FmSession_t) \<Rightarrow> FmSession_t \<Rightarrow> FmRadioState_t \<Rightarrow> FmSession_t \<times> effect list" where
  \<comment> \<open>Modelled from the spec: the macro \<open>FMRADIO_SET_STATE\<close> of android_fmradio.h is not
      in the sources. It assigns the state field and notifies \<open>onStateChanged(new, old)\<close>,
      which for the receiver is the callback above.\<close>
  "FMRADIO_SET_STATE_unlocking in_java s newState =
     androidFmRadioRxCallbackOnStateChanged in_java newState (state s) (s\<lparr>state := newState\<rparr>)"

text \<open>
  The workers again, statement by statement as before, with the state set by
  \<open>FMRADIO_SET_STATE_unlocking\<close>. After the state notification the worker holds the mutex
  until it calls \<open>onScan\<close>, \<open>onFullScan\<close> or \<open>onError\<close>, and it neither reads nor writes
  the session after that call: the session returned is the one in which the worker makes
  its report.
\<close>

definition execute_androidFmRadioRxScan_relocked_unlocking ::
    "fmradio_vendor_methods_t \<Rightarrow> FmRadioState_t \<Rightarrow> int \<Rightarrow> (FmSession_t \<Rightarrow> FmSession_t) \<Rightarrow>
     FmSession_t \<Rightarrow> FmSession_t \<times> effect list" where
  "execute_androidFmRadioRxScan_relocked_unlocking vm old scanned in_java s =
     (let (s1, t1, retval, signalStrength) =
            (if state s \<noteq> FMRADIO_STATE_SCANNING then (s, [], - 1, - 1)
             else
               (let tp = (if old = FMRADIO_STATE_PAUSED \<or> pendingPause s then [VendorPause] else []);
                    (s', ts) = (if pendingPause s
                                then FMRADIO_SET_STATE_unlocking in_java s FMRADIO_STATE_PAUSED
                                else FMRADIO_SET_STATE_unlocking in_java s old);
                    (sig, tg) = (if scanned \<ge> 0 then
                                   (case get_signal_strength vm of
                                      Some r \<Rightarrow> (r, [VendorGetSignalStrength])
                                    | None \<Rightarrow> (- 1, []))
                                 else (- 1, []))
                in (s', tp @ ts @ tg, scanned, sig)));
          s2 = s1\<lparr>pendingPause := False\<rparr>
      in if retval \<ge> 0 then (s2, t1 @ [OnScan retval signalStrength (lastScanAborted s2)])
         else (s2, t1 @ [OnError]))"

definition execute_androidFmRadioRxScan_unlocking ::
    "fmradio_vendor_methods_t \<Rightarrow> fmradio_seek_direction_t \<Rightarrow> (FmSession_t \<Rightarrow> FmSession_t) \<Rightarrow>
     (FmSession_t \<Rightarrow> FmSession_t) \<Rightarrow> FmSession_t \<Rightarrow> (FmSession_t \<times> effect list) option" where
  "execute_androidFmRadioRxScan_unlocking vm seekDirection others in_java s0 =
     (let old = oldState s0;
          t0 = (if old = FMRADIO_STATE_PAUSED then [VendorResume] else [])
      in case scan vm of
           None \<Rightarrow> None
         | Some vendor_scan \<Rightarrow>
             (let (s2, t2) = execute_androidFmRadioRxScan_relocked_unlocking vm old
                               (vendor_scan seekDirection) in_java (others s0)
              in Some (s2, t0 @ [VendorScan seekDirection] @ t2)))"

definition execute_androidFmRadioRxFullScan_relocked_unlocking ::
    "FmRadioState_t \<Rightarrow> int \<times> int list \<times> int list \<Rightarrow> (FmSession_t \<Rightarrow> FmSession_t) \<Rightarrow>
     FmSession_t \<Rightarrow> FmSession_t \<times> effect list" where
  "execute_androidFmRadioRxFullScan_relocked_unlocking old scanned in_java s =
     (let (n, frequencies, rssi) = scanned;
          (s1, t1, retval) =
            (if state s \<noteq> FMRADIO_STATE_SCANNING then (s, [], - 1)
             else
               (let (s', ts) = (if pendingPause s
                                then FMRADIO_SET_STATE_unlocking in_java s FMRADIO_STATE_PAUSED
                                else FMRADIO_SET_STATE_unlocking in_java s old)
                in (s'\<lparr>pendingPause := False\<rparr>, ts, n)))
      in if retval \<ge> 0 then (s1, t1 @ [OnFullScan retval frequencies rssi (lastScanAborted s1)])
         else (s1, t1 @ [OnError]))"

definition execute_androidFmRadioRxFullScan_unlocking ::
    "fmradio_vendor_methods_t \<Rightarrow> (FmSession_t \<Rightarrow> FmSession_t) \<Rightarrow> (FmSession_t \<Rightarrow> FmSession_t) \<Rightarrow>
     FmSession_t \<Rightarrow> (FmSession_t \<times> effect list) option" where
  "execute_androidFmRadioRxFullScan_unlocking vm others in_java s0 =
     (let old = oldState s0;
          t0 = (if old = FMRADIO_STATE_PAUSED then [VendorResume] else [])
      in case full_scan vm of
           None \<Rightarrow> None
         | Some scanned \<Rightarrow>
             (let (s2, t2) = execute_androidFmRadioRxFullScan_relocked_unlocking old scanned
                               in_java (others s0)
              in Some (s2, t0 @ [VendorFullScan] @ t2)))"

subsection \<open>Reading a trace, and concrete sessions and drivers\<close>


text \<open>
  Values to run the functions on: a choice of the status codes (negative and distinct), a
  driver with every method, a driver with none of the optional ones, a session in a given
  state with nothing pending, and a session that entered scanning from a given state.
\<close>

definition example_codes :: return_codes where
  "example_codes =
     \<lparr>FMRADIO_INVALID_STATE = - 2, FMRADIO_IO_ERROR = - 1, FMRADIO_UNSUPPORTED_OPERATION = - 3\<rparr>"

definition vendor_all :: fmradio_vendor_methods_t where
  "vendor_all =
     \<lparr>get_signal_strength = Some 40,
      scan = Some (\<lambda>d. 98300),
      full_scan = Some (2, [98300, 101100], [40, 35]),
      set_automatic_af_switching = Some (\<lambda>b. 0),
      set_automatic_ta_switching = Some (\<lambda>b. 0),
      set_force_mono = Some (\<lambda>b. 0),
      set_threshold = Some (\<lambda>n. 0),
      get_threshold = Some 10\<rparr>"

definition vendor_none :: fmradio_vendor_methods_t where
  "vendor_none =
     \<lparr>get_signal_strength = None, scan = None, full_scan = None,
      set_automatic_af_switching = None, set_automatic_ta_switching = None,
      set_force_mono = None, set_threshold = None, get_threshold = None\<rparr>"

definition session_in :: "FmRadioState_t \<Rightarrow> FmSession_t" where
  "session_in st =
     \<lparr>isRegistered = True, state = st, oldState = FMRADIO_STATE_IDLE,
      pendingPause = False, lastScanAborted = False\<rparr>"

definition scanning_from :: "FmRadioState_t \<Rightarrow> FmSession_t" where
  "scanning_from st =
     \<lparr>isRegistered = True, state = FMRADIO_STATE_SCANNING, oldState = st,
      pendingPause = False, lastScanAborted = False\<rparr>"

section \<open>Theorems\<close>

subsection \<open>Shared lemmas\<close>

lemma valid_event_iff:
  "androidFmRadioIsValidEventForState s e = spec_is_valid e (state s)"
  unfolding androidFmRadioIsValidEventForState_def
  by (cases e; cases "state s"; simp add: rx_event_valid_def IsValidRxEventForState_def)


lemmas helper_defs =
  FMRADIO_SET_STATE_def androidFmRadioTempResumeIfPaused_def
  androidFmRadioPauseIfTempResumed_def THROW_INVALID_STATE_def THROW_IO_ERROR_def throw_for_def

lemmas worker_defs =
  execute_androidFmRadioRxScan_def execute_androidFmRadioRxScan_relocked_def
  execute_androidFmRadioRxFullScan_def execute_androidFmRadioRxFullScan_relocked_def

subsection \<open>The transition table\<close>

text \<open>
  C1. For every pair of an event and a state the lookup in the receiver's table gives what
  the specification's table prescribes: start and asynchronous start only from idle; pause,
  resume, scan, full scan, get and set parameter only from started or paused; get signal
  strength only from started; reset, forced pause, stop scan and extra command from every
  state but resetting; block scan from no state.
\<close>

theorem rx_event_valid_matches_spec:
  "rx_event_valid e st = spec_is_valid e st"
  by (cases e; cases st; simp add: rx_event_valid_def IsValidRxEventForState_def)

subsection \<open>The scan workers\<close>

text \<open>
  C2. If the state is no longer scanning when a scan worker or a full-scan worker takes the
  mutex again after the vendor's scan call, the worker leaves \<open>state\<close> and \<open>oldState\<close>
  as it found them, drops the scan result and reports \<open>onError\<close>, not \<open>onScan\<close> or
  \<open>onFullScan\<close>. The session it leaves is the one it found (the scan worker also clears
  \<open>pendingPause\<close>), so after a reset during the vendor call the session stays idle.
\<close>

theorem stale_scan_result_discarded:
  assumes "state (others s0) \<noteq> FMRADIO_STATE_SCANNING"
  shows "(scan vm = Some vendor_scan \<longrightarrow>
          execute_androidFmRadioRxScan vm seekDirection others s0 =
            Some ((others s0)\<lparr>pendingPause := False\<rparr>,
                  (if oldState s0 = FMRADIO_STATE_PAUSED then [VendorResume] else [])
                    @ [VendorScan seekDirection, OnError])) \<and>
         (full_scan vm = Some scanned \<longrightarrow>
          execute_androidFmRadioRxFullScan vm others s0 =
            Some (others s0,
                  (if oldState s0 = FMRADIO_STATE_PAUSED then [VendorResume] else [])
                    @ [VendorFullScan, OnError]))"
  using assms
  by (simp add: worker_defs split: prod.splits)

text \<open>
  A forced reset arrives during the vendor call of a scan that was started from paused:
  both workers leave the session idle and report an error.
\<close>

theorem stale_scan_result_discarded_witness:
  "state (fst (androidFmRadioRxCallbackOnVendorForcedReset 1 (scanning_from FMRADIO_STATE_PAUSED)))
     \<noteq> FMRADIO_STATE_SCANNING \<and>
   execute_androidFmRadioRxScan vendor_all FMRADIO_SEEK_UP
       (\<lambda>s. fst (androidFmRadioRxCallbackOnVendorForcedReset 1 s))
       (scanning_from FMRADIO_STATE_PAUSED) =
     Some (\<lparr>isRegistered = True, state = FMRADIO_STATE_IDLE, oldState = FMRADIO_STATE_PAUSED,
            pendingPause = False, lastScanAborted = False\<rparr>,
           [VendorResume, VendorScan FMRADIO_SEEK_UP, OnError]) \<and>
   execute_androidFmRadioRxFullScan vendor_all
       (\<lambda>s. fst (androidFmRadioRxCallbackOnVendorForcedReset 1 s))
       (scanning_from FMRADIO_STATE_PAUSED) =
     Some (\<lparr>isRegistered = True, state = FMRADIO_STATE_IDLE, oldState = FMRADIO_STATE_PAUSED,
            pendingPause = False, lastScanAborted = False\<rparr>,
           [VendorResume, VendorFullScan, OnError])"
  using stale_scan_result_discarded
    [of "\<lambda>s. fst (androidFmRadioRxCallbackOnVendorForcedReset 1 s)"
        "scanning_from FMRADIO_STATE_PAUSED" vendor_all "\<lambda>d. 98300" FMRADIO_SEEK_UP
        "(2, [98300, 101100], [40, 35])"]
  by (simp add: vendor_all_def scanning_from_def androidFmRadioRxCallbackOnVendorForcedReset_def FMRADIO_SET_STATE_def)

text \<open>
  C3. The specification gives both workers the same end: with the state still scanning,
  the vendor's \<open>pause\<close> is called when a pause is pending or the scan was started from
  paused. The full-scan worker does not do that: started from paused it calls the vendor's
  \<open>resume\<close> on entry and sets the state back to paused at the end, but never calls
  \<open>pause\<close>; the scan worker, run on the same session, does.
\<close>

theorem full_scan_from_paused_never_pauses_vendor:
  "execute_androidFmRadioRxFullScan vendor_all (\<lambda>s. s) (scanning_from FMRADIO_STATE_PAUSED) =
     Some (\<lparr>isRegistered = True, state = FMRADIO_STATE_PAUSED, oldState = FMRADIO_STATE_PAUSED,
            pendingPause = False, lastScanAborted = False\<rparr>,
           [VendorResume, VendorFullScan,
            OnStateChanged FMRADIO_STATE_PAUSED FMRADIO_STATE_SCANNING,
            OnFullScan 2 [98300, 101100] [40, 35] False]) \<and>
   execute_androidFmRadioRxScan vendor_all FMRADIO_SEEK_UP (\<lambda>s. s)
       (scanning_from FMRADIO_STATE_PAUSED) =
     Some (\<lparr>isRegistered = True, state = FMRADIO_STATE_PAUSED, oldState = FMRADIO_STATE_PAUSED,
            pendingPause = False, lastScanAborted = False\<rparr>,
           [VendorResume, VendorScan FMRADIO_SEEK_UP, VendorPause,
            OnStateChanged FMRADIO_STATE_PAUSED FMRADIO_STATE_SCANNING,
            VendorGetSignalStrength, OnScan 98300 40 False])"
  by (simp add: worker_defs vendor_all_def scanning_from_def FMRADIO_SET_STATE_def)

text \<open>
  C4. The specification has \<open>pendingPause\<close> false when a worker ends, on every path.
  While a full scan runs, a pause is deferred (\<open>pendingPause\<close> is set) and then a forced
  reset arrives: the full-scan worker ends with \<open>pendingPause\<close> still set; the scan
  worker, run on the same session, clears it.
\<close>

theorem full_scan_stale_path_keeps_pending_pause:
  "execute_androidFmRadioRxFullScan vendor_all
       (\<lambda>s. fst (androidFmRadioRxCallbackOnVendorForcedReset 1 (s\<lparr>pendingPause := True\<rparr>)))
       (scanning_from FMRADIO_STATE_STARTED) =
     Some (\<lparr>isRegistered = True, state = FMRADIO_STATE_IDLE, oldState = FMRADIO_STATE_STARTED,
            pendingPause = True, lastScanAborted = False\<rparr>,
           [VendorFullScan, OnError]) \<and>
   execute_androidFmRadioRxScan vendor_all FMRADIO_SEEK_UP
       (\<lambda>s. fst (androidFmRadioRxCallbackOnVendorForcedReset 1 (s\<lparr>pendingPause := True\<rparr>)))
       (scanning_from FMRADIO_STATE_STARTED) =
     Some (\<lparr>isRegistered = True, state = FMRADIO_STATE_IDLE, oldState = FMRADIO_STATE_STARTED,
            pendingPause = False, lastScanAborted = False\<rparr>,
           [VendorScan FMRADIO_SEEK_UP, OnError])"
  by (simp add: worker_defs vendor_all_def scanning_from_def androidFmRadioRxCallbackOnVendorForcedReset_def
      FMRADIO_SET_STATE_def)

subsection \<open>Commands and callbacks\<close>

text \<open>
  C5. A scan requested while the state is scanning raises \<open>InvalidState\<close> and does nothing
  else: no thread is created and the session is returned as it was, in every field.
\<close>

theorem scan_while_scanning_rejected:
  assumes "state s = FMRADIO_STATE_SCANNING"
  shows "androidFmRadioRxScan rc vm thread_ok seekDirection s = (s, [Throw InvalidState])"
  using assms
  by (simp add: androidFmRadioRxScan_def valid_event_iff throw_for_def THROW_INVALID_STATE_def)

theorem scan_while_scanning_rejected_witness:
  "state (scanning_from FMRADIO_STATE_STARTED) = FMRADIO_STATE_SCANNING \<and>
   androidFmRadioRxScan example_codes vendor_all True FMRADIO_SEEK_UP
       (scanning_from FMRADIO_STATE_STARTED) =
     (scanning_from FMRADIO_STATE_STARTED, [Throw InvalidState])"
  using scan_while_scanning_rejected
    [of "scanning_from FMRADIO_STATE_STARTED" example_codes vendor_all True FMRADIO_SEEK_UP]
  by (simp add: scanning_from_def)

text \<open>
  C6. A forced reset from the vendor layer, delivered in any state (so also in started),
  leaves the state idle and calls \<open>onForcedReset\<close> once, with the reason it was given.
\<close>

theorem forced_reset_idles_and_notifies_once:
  "state (fst (androidFmRadioRxCallbackOnVendorForcedReset reason s)) = FMRADIO_STATE_IDLE \<and>
   filter is_OnForcedReset (snd (androidFmRadioRxCallbackOnVendorForcedReset reason s)) =
     [OnForcedReset reason]"
  by (simp add: androidFmRadioRxCallbackOnVendorForcedReset_def FMRADIO_SET_STATE_def)

text \<open>
  C7. Asking for the signal strength while paused: the state is paused before and after
  the call and no field of the session changes. The call does not wake the vendor driver,
  though: the table does not allow the event from paused, so the call raises
  \<open>InvalidState\<close> and returns the status \<open>FMRADIO_INVALID_STATE\<close> without any vendor call.
\<close>

theorem get_signal_strength_while_paused_rejected:
  assumes "state s = FMRADIO_STATE_PAUSED"
  shows "androidFmRadioRxGetSignalStrength rc vm s = (FMRADIO_INVALID_STATE rc, s, [Throw InvalidState])"
  using assms
  by (simp add: androidFmRadioRxGetSignalStrength_def valid_event_iff throw_for_def THROW_INVALID_STATE_def)

theorem get_signal_strength_while_paused_rejected_witness:
  "state (session_in FMRADIO_STATE_PAUSED) = FMRADIO_STATE_PAUSED \<and>
   androidFmRadioRxGetSignalStrength example_codes vendor_all (session_in FMRADIO_STATE_PAUSED)
     = (- 2, session_in FMRADIO_STATE_PAUSED, [Throw InvalidState])"
  using get_signal_strength_while_paused_rejected
    [of "session_in FMRADIO_STATE_PAUSED" example_codes vendor_all]
  by (simp add: session_in_def example_codes_def)

text \<open>
  With a driver that can measure the signal strength, the call from paused makes neither
  the vendor's \<open>resume\<close>, nor the measurement, nor the vendor's \<open>pause\<close>.
\<close>

theorem get_signal_strength_while_paused_no_vendor_call:
  "VendorResume \<notin> set (snd (snd (androidFmRadioRxGetSignalStrength example_codes vendor_all
                                    (session_in FMRADIO_STATE_PAUSED)))) \<and>
   VendorPause \<notin> set (snd (snd (androidFmRadioRxGetSignalStrength example_codes vendor_all
                                    (session_in FMRADIO_STATE_PAUSED))))"
  by (simp add: androidFmRadioRxGetSignalStrength_def valid_event_iff throw_for_def
      THROW_INVALID_STATE_def session_in_def)

text \<open>
  C8. An operation whose vendor method is a null pointer, requested in a state that allows
  its event, makes no vendor call and returns the session unchanged. Its status is
  \<open>FMRADIO_UNSUPPORTED_OPERATION\<close>; the receiver raises only two exceptions, and when that
  status is negative and differs from \<open>FMRADIO_INVALID_STATE\<close> the one raised is \<open>IoError\<close>.
  This holds for the signal strength, scan, full scan, set and get threshold, force mono,
  and automatic AF and TA switching.
\<close>

theorem null_capability_raises_io_error:
  assumes "FMRADIO_UNSUPPORTED_OPERATION rc < 0"
    and "FMRADIO_UNSUPPORTED_OPERATION rc \<noteq> FMRADIO_INVALID_STATE rc"
  shows
   "(androidFmRadioIsValidEventForState s FMRADIO_EVENT_GET_SIGNAL_STRENGTH \<and> get_signal_strength vm = None \<longrightarrow>
       androidFmRadioRxGetSignalStrength rc vm s = (FMRADIO_UNSUPPORTED_OPERATION rc, s, [Throw IoError])) \<and>
    (androidFmRadioIsValidEventForState s FMRADIO_EVENT_SCAN \<and> scan vm = None \<longrightarrow>
       androidFmRadioRxScan rc vm thread_ok seekDirection s = (s, [Throw IoError])) \<and>
    (androidFmRadioIsValidEventForState s FMRADIO_EVENT_FULL_SCAN \<and> full_scan vm = None \<longrightarrow>
       androidFmRadioRxStartFullScan rc vm thread_ok s = (s, [Throw IoError])) \<and>
    (androidFmRadioIsValidEventForState s FMRADIO_EVENT_SET_PARAMETER \<and> set_threshold vm = None \<longrightarrow>
       androidFmRadioRxSetThreshold rc vm threshold s = (s, [Throw IoError])) \<and>
    (androidFmRadioIsValidEventForState s FMRADIO_EVENT_GET_PARAMETER \<and> get_threshold vm = None \<longrightarrow>
       androidFmRadioRxGetThreshold rc vm s = (FMRADIO_UNSUPPORTED_OPERATION rc, s, [Throw IoError])) \<and>
    (androidFmRadioIsValidEventForState s FMRADIO_EVENT_SET_PARAMETER \<and> set_force_mono vm = None \<longrightarrow>
       androidFmRadioRxSetForceMono rc vm flag s = (s, [Throw IoError])) \<and>
    (androidFmRadioIsValidEventForState s FMRADIO_EVENT_SET_PARAMETER \<and> set_automatic_af_switching vm = None \<longrightarrow>
       androidFmRadioRxSetAutomaticAFSwitching rc vm flag s = (s, [Throw IoError])) \<and>
    (androidFmRadioIsValidEventForState s FMRADIO_EVENT_SET_PARAMETER \<and> set_automatic_ta_switching vm = None \<longrightarrow>
       androidFmRadioRxSetAutomaticTASwitching rc vm flag s = (s, [Throw IoError]))"
  using assms
  by (simp add: androidFmRadioRxGetSignalStrength_def androidFmRadioRxScan_def
      androidFmRadioRxStartFullScan_def androidFmRadioRxSetThreshold_def
      androidFmRadioRxGetThreshold_def androidFmRadioRxSetForceMono_def
      androidFmRadioRxSetAutomaticAFSwitching_def androidFmRadioRxSetAutomaticTASwitching_def
      throw_for_def THROW_IO_ERROR_def)

theorem null_capability_raises_io_error_witness:
  "androidFmRadioRxGetSignalStrength example_codes vendor_none (session_in FMRADIO_STATE_STARTED) =
     (- 3, session_in FMRADIO_STATE_STARTED, [Throw IoError]) \<and>
   androidFmRadioRxScan example_codes vendor_none True FMRADIO_SEEK_UP (session_in FMRADIO_STATE_STARTED) =
     (session_in FMRADIO_STATE_STARTED, [Throw IoError]) \<and>
   androidFmRadioRxStartFullScan example_codes vendor_none True (session_in FMRADIO_STATE_STARTED) =
     (session_in FMRADIO_STATE_STARTED, [Throw IoError]) \<and>
   androidFmRadioRxSetThreshold example_codes vendor_none 7 (session_in FMRADIO_STATE_STARTED) =
     (session_in FMRADIO_STATE_STARTED, [Throw IoError]) \<and>
   androidFmRadioRxGetThreshold example_codes vendor_none (session_in FMRADIO_STATE_STARTED) =
     (- 3, session_in FMRADIO_STATE_STARTED, [Throw IoError]) \<and>
   androidFmRadioRxSetForceMono example_codes vendor_none True (session_in FMRADIO_STATE_STARTED) =
     (session_in FMRADIO_STATE_STARTED, [Throw IoError]) \<and>
   androidFmRadioRxSetAutomaticAFSwitching example_codes vendor_none True (session_in FMRADIO_STATE_STARTED) =
     (session_in FMRADIO_STATE_STARTED, [Throw IoError]) \<and>
   androidFmRadioRxSetAutomaticTASwitching example_codes vendor_none True (session_in FMRADIO_STATE_STARTED) =
     (session_in FMRADIO_STATE_STARTED, [Throw IoError])"
  using null_capability_raises_io_error
    [of example_codes "session_in FMRADIO_STATE_STARTED" vendor_none True FMRADIO_SEEK_UP 7 True]
  by (simp add: valid_event_iff example_codes_def vendor_none_def session_in_def)

text \<open>
  With a driver that has none of the optional methods, the signal strength query and the
  scan request from started raise \<open>IoError\<close>, which is not \<open>UnsupportedOperation\<close>.
\<close>

theorem null_capability_not_unsupported_operation:
  "androidFmRadioRxGetSignalStrength example_codes vendor_none (session_in FMRADIO_STATE_STARTED) =
     (- 3, session_in FMRADIO_STATE_STARTED, [Throw IoError]) \<and>
   androidFmRadioRxScan example_codes vendor_none True FMRADIO_SEEK_UP (session_in FMRADIO_STATE_STARTED) =
     (session_in FMRADIO_STATE_STARTED, [Throw IoError]) \<and>
   [Throw IoError] \<noteq> [Throw UnsupportedOperation]"
  by (simp add: androidFmRadioRxGetSignalStrength_def androidFmRadioRxScan_def valid_event_iff
       helper_defs example_codes_def vendor_none_def session_in_def)

text \<open>
  The state notification with no interference is the plain \<open>FMRADIO_SET_STATE\<close>, and the
  workers of the two subsections then agree.
\<close>

lemmas unlocking_defs =
  androidFmRadioRxCallbackOnStateChanged_def FMRADIO_SET_STATE_unlocking_def

lemma set_state_unlocking_id:
  "FMRADIO_SET_STATE_unlocking (\<lambda>s. s) s newState = FMRADIO_SET_STATE s newState"
  by (simp add: unlocking_defs FMRADIO_SET_STATE_def)

lemma scan_relocked_unlocking_id:
  "execute_androidFmRadioRxScan_relocked_unlocking vm old scanned (\<lambda>s. s) s =
     execute_androidFmRadioRxScan_relocked vm old scanned s"
  unfolding execute_androidFmRadioRxScan_relocked_unlocking_def
    execute_androidFmRadioRxScan_relocked_def set_state_unlocking_id
  by (rule refl)

lemma full_scan_relocked_unlocking_id:
  "execute_androidFmRadioRxFullScan_relocked_unlocking old scanned (\<lambda>s. s) s =
     execute_androidFmRadioRxFullScan_relocked old scanned s"
  unfolding execute_androidFmRadioRxFullScan_relocked_unlocking_def
    execute_androidFmRadioRxFullScan_relocked_def set_state_unlocking_id
  by (rule refl)

lemma scan_unlocking_id:
  "execute_androidFmRadioRxScan_unlocking vm seekDirection others (\<lambda>s. s) s0 =
     execute_androidFmRadioRxScan vm seekDirection others s0"
  unfolding execute_androidFmRadioRxScan_unlocking_def execute_androidFmRadioRxScan_def
    scan_relocked_unlocking_id
  by (rule refl)

lemma full_scan_unlocking_id:
  "execute_androidFmRadioRxFullScan_unlocking vm others (\<lambda>s. s) s0 =
     execute_androidFmRadioRxFullScan vm others s0"
  unfolding execute_androidFmRadioRxFullScan_unlocking_def execute_androidFmRadioRxFullScan_def
    full_scan_relocked_unlocking_id
  by (rule refl)






text \<open>
  C10. If \<open>pthread_create\<close> fails for a scan or full-scan request made from started or
  paused, the request raises \<open>IoError\<close> (the status \<open>FMRADIO_IO_ERROR\<close> being negative and
  different from \<open>FMRADIO_INVALID_STATE\<close>) and the session ends idle, with the state it had
  before the request kept only in \<open>oldState\<close>.
\<close>

theorem thread_creation_failure_goes_idle:
  assumes "state s = FMRADIO_STATE_STARTED \<or> state s = FMRADIO_STATE_PAUSED"
    and "FMRADIO_IO_ERROR rc < 0" and "FMRADIO_IO_ERROR rc \<noteq> FMRADIO_INVALID_STATE rc"
  shows "(scan vm \<noteq> None \<longrightarrow>
          androidFmRadioRxScan rc vm False seekDirection s =
            (s\<lparr>oldState := state s, state := FMRADIO_STATE_IDLE, lastScanAborted := False\<rparr>,
             [OnStateChanged FMRADIO_STATE_SCANNING (state s),
              OnStateChanged FMRADIO_STATE_IDLE FMRADIO_STATE_SCANNING, Throw IoError])) \<and>
         (full_scan vm \<noteq> None \<longrightarrow>
          androidFmRadioRxStartFullScan rc vm False s =
            (s\<lparr>oldState := state s, state := FMRADIO_STATE_IDLE, lastScanAborted := False\<rparr>,
             [OnStateChanged FMRADIO_STATE_SCANNING (state s),
              OnStateChanged FMRADIO_STATE_IDLE FMRADIO_STATE_SCANNING, Throw IoError]))"
  using assms
  by (auto simp add: androidFmRadioRxScan_def androidFmRadioRxStartFullScan_def
      valid_event_iff helper_defs)

theorem thread_creation_failure_goes_idle_witness:
  "(state (session_in FMRADIO_STATE_PAUSED) = FMRADIO_STATE_STARTED \<or>
    state (session_in FMRADIO_STATE_PAUSED) = FMRADIO_STATE_PAUSED) \<and>
   FMRADIO_IO_ERROR example_codes < 0 \<and>
   FMRADIO_IO_ERROR example_codes \<noteq> FMRADIO_INVALID_STATE example_codes \<and>
   androidFmRadioRxScan example_codes vendor_all False FMRADIO_SEEK_UP (session_in FMRADIO_STATE_PAUSED) =
     (\<lparr>isRegistered = True, state = FMRADIO_STATE_IDLE, oldState = FMRADIO_STATE_PAUSED,
       pendingPause = False, lastScanAborted = False\<rparr>,
      [OnStateChanged FMRADIO_STATE_SCANNING FMRADIO_STATE_PAUSED,
       OnStateChanged FMRADIO_STATE_IDLE FMRADIO_STATE_SCANNING, Throw IoError]) \<and>
   androidFmRadioRxStartFullScan example_codes vendor_all False (session_in FMRADIO_STATE_PAUSED) =
     (\<lparr>isRegistered = True, state = FMRADIO_STATE_IDLE, oldState = FMRADIO_STATE_PAUSED,
       pendingPause = False, lastScanAborted = False\<rparr>,
      [OnStateChanged FMRADIO_STATE_SCANNING FMRADIO_STATE_PAUSED,
       OnStateChanged FMRADIO_STATE_IDLE FMRADIO_STATE_SCANNING, Throw IoError])"
  using thread_creation_failure_goes_idle
    [of "session_in FMRADIO_STATE_PAUSED" example_codes vendor_all FMRADIO_SEEK_UP]
  by (simp add: example_codes_def vendor_all_def session_in_def)

end
